theory Spec2Isabelle
  imports Main "HOL-Library.Word"
begin

section \<open>Script execution: handlers/script.go\<close>

subsection \<open>Data\<close>

text \<open>
  Go strings are byte sequences; \<^typ>\<open>string\<close> is a list of bytes as well, and
  \<open>len\<close> and slicing count bytes on both sides.
\<close>

text \<open>
  Modelled from the spec: \<open>models.Action\<close> is declared outside the given sources. The
  fields are the ones \<open>ScriptExec\<close> reads; \<open>Timeout\<close> is a Go \<open>int\<close> of seconds.
\<close>

record Action =
  Name :: string
  Cmd :: string
  Timeout :: int

text \<open>
  Modelled from the spec: \<open>models.ScriptResponse\<close> is declared outside the given sources
  (the spec's ScriptResult: an integer status and the output text).
\<close>

record ScriptResponse =
  Status :: int
  Output :: string

text \<open>
  The error values that reach the type switch of \<open>ScriptExec\<close>, by dynamic type, each with
  what the code reads from it:
  \<^item> \<open>ExitError st se tx\<close> is an \<open>*exec.ExitError\<close>: \<open>st\<close> is the \<open>ExitStatus()\<close> of its
    wait status, \<open>se\<close> the bytes captured in its \<open>Stderr\<close> field, \<open>tx\<close> its \<open>Error()\<close> text;
  \<^item> \<open>PathError tx\<close> is an \<open>*os.PathError\<close> (the start of the given path failed);
  \<^item> \<open>ExecError tx\<close> is an \<open>*exec.Error\<close>, the error of the executable lookup that
    \<open>exec.CommandContext\<close> performs for a name without a path separator;
  \<^item> \<open>OtherError tx\<close> is an error of any other type (\<open>fmt.Errorf\<close>, \<open>errors.New\<close>, ...).
\<close>

datatype go_error =
    ExitError int string string
  | PathError string
  | ExecError string
  | OtherError string

fun Error :: "go_error \<Rightarrow> string" where
  "Error (ExitError st se tx) = tx"
| "Error (PathError tx) = tx"
| "Error (ExecError tx) = tx"
| "Error (OtherError tx) = tx"

text \<open>A run-time panic of the Go program: indexing an empty slice.\<close>

datatype go_panic = IndexOutOfRange

text \<open>
  What the environment hands back after \<open>cmd.Output()\<close> has returned: the captured
  standard output, the error, whether \<open>ctx.Err()\<close> is \<open>context.DeadlineExceeded\<close> by then,
  and the \<open>ExitStatus()\<close> of \<open>cmd.ProcessState\<close> (read only when the error is nil).
\<close>

record cmd_run =
  out :: string
  err :: "go_error option"
  deadline_exceeded :: bool
  process_exit_status :: int

subsection \<open>Library functions\<close>

text \<open>
  \<open>strings.Trim(s, cutset)\<close>: all leading and all trailing bytes of \<open>s\<close> that occur in
  \<open>cutset\<close> are removed. The cut set of the program is a space and a line feed.
\<close>

definition Trim :: "string \<Rightarrow> string \<Rightarrow> string" where
  "Trim s cutset =
     rev (dropWhile (\<lambda>c. c \<in> set cutset) (rev (dropWhile (\<lambda>c. c \<in> set cutset) s)))"

definition space_newline :: string where
  "space_newline = [CHR 0x20, CHR 0x0A]"

text \<open>A string is trimmed when neither its first nor its last byte is in the cut set.\<close>

definition trimmed :: "string \<Rightarrow> bool" where
  "trimmed s = (s = [] \<or> (hd s \<notin> set space_newline \<and> last s \<notin> set space_newline))"

text \<open>
  \<open>time.Duration(args.Timeout) * time.Second\<close>: a signed 64-bit count of nanoseconds,
  the product wraps.
\<close>

definition Duration_Second :: "int \<Rightarrow> 64 word" where
  "Duration_Second t = word_of_int t * 1000000000"

subsection \<open>ScriptExec\<close>

definition timeout_message :: string where
  "timeout_message = ''Hmm, something timed out. Please try again.''"

definition timeout_error :: "string \<Rightarrow> go_error" where
  "timeout_error name =
     OtherError (''timeout reached, exec process for action '' @ [CHR 0x27] @ name
                 @ [CHR 0x27] @ '' cancelled'')"

text \<open>
  The type switch of lines 57 to 72: the response after the arm for the error's type.
\<close>

fun switch_err :: "ScriptResponse \<Rightarrow> go_error \<Rightarrow> ScriptResponse" where
  "switch_err result (ExitError st se tx) =
     result\<lparr>Status := st, Output := Trim se space_newline\<rparr>"
| "switch_err result (PathError tx) = result\<lparr>Status := 127, Output := tx\<rparr>"
| "switch_err result (ExecError tx) = result\<lparr>Output := Trim tx space_newline\<rparr>"
| "switch_err result (OtherError tx) = result\<lparr>Output := Trim tx space_newline\<rparr>"

text \<open>
  \<open>ScriptExec\<close>, with its three collaborators as parameters: \<open>utils.Substitute\<close> and
  \<open>utils.ExecArgTokenizer\<close> (of this repository, outside the given sources) and the run
  of the command by the operating system. The variables of the message are all that
  \<open>ScriptExec\<close> reads from it, so they stand for the message. The result is the pair the
  Go function returns, or the panic of \<open>bin[0]\<close> on an empty token list. The calls to the
  logger write to the bot's log only and are left out.
\<close>

definition ScriptExec ::
  "(string \<Rightarrow> (string \<rightharpoonup> string) \<Rightarrow> string \<times> go_error option) \<Rightarrow>
   (string \<Rightarrow> string list) \<Rightarrow>
   (64 word \<Rightarrow> string \<Rightarrow> string list \<Rightarrow> cmd_run) \<Rightarrow>
   Action \<Rightarrow> (string \<rightharpoonup> string) \<Rightarrow> go_panic + (ScriptResponse \<times> go_error option)"
where
  "ScriptExec Substitute ExecArgTokenizer run args vars =
    (let timeout = (if Timeout args = 0 then 20 else Timeout args);
         result = \<lparr>Status = 1, Output = []\<rparr>;
         (cmdProcessed, err0) = Substitute (Cmd args) vars
     in case err0 of
          Some e \<Rightarrow> Inr (result, Some e)
        | None \<Rightarrow>
           (case ExecArgTokenizer cmdProcessed of
              [] \<Rightarrow> Inl IndexOutOfRange
            | b # bs \<Rightarrow>
               (let r = run (Duration_Second timeout) b bs
                in if deadline_exceeded r
                   then Inr (result\<lparr>Output := timeout_message\<rparr>,
                             Some (timeout_error (Name args)))
                   else (case err r of
                           Some e \<Rightarrow>
                             (let result1 = switch_err result e;
                                  strOut = Trim (out r) space_newline
                              in Inr (if strOut \<noteq> [] then result1\<lparr>Output := strOut\<rparr>
                                      else result1, Some e))
                         | None \<Rightarrow>
                             Inr (result\<lparr>Status := process_exit_status r,
                                        Output := Trim (out r) space_newline\<rparr>, None)))))"

subsection \<open>The outcomes of an invocation\<close>

text \<open>
  The ways an invocation of \<open>ScriptExec\<close> can end, named as the specification names
  them, with the substitution failure of its step 1.
\<close>

datatype outcome =
    SubstitutionFailure
  | TimeoutReached
  | LookupFailure
  | NonZeroExit
  | Success

text \<open>
  \<open>applies o name res\<close>: outcome \<open>o\<close> describes the returned pair \<open>res\<close> of response and
  error, for the action called \<open>name\<close>. Each outcome is read off the returned pair alone:
  a nil error is success, an \<open>*exec.ExitError\<close> with its exit status as the status is a
  non-zero exit, an \<open>*os.PathError\<close> with status 127 is a lookup failure, the timeout error
  with the default status and the fixed text is a timeout, and another plain error with
  the default response is a substitution failure.
\<close>

fun applies :: "outcome \<Rightarrow> string \<Rightarrow> ScriptResponse \<times> go_error option \<Rightarrow> bool" where
  "applies SubstitutionFailure name res =
     (case snd res of
        Some (OtherError tx) \<Rightarrow> Status (fst res) = 1 \<and> Output (fst res) = []
      | _ \<Rightarrow> False)"
| "applies TimeoutReached name res =
     (res = (\<lparr>Status = 1, Output = timeout_message\<rparr>, Some (timeout_error name)))"
| "applies LookupFailure name res =
     (case snd res of Some (PathError tx) \<Rightarrow> Status (fst res) = 127 | _ \<Rightarrow> False)"
| "applies NonZeroExit name res =
     (case snd res of Some (ExitError st se tx) \<Rightarrow> Status (fst res) = st | _ \<Rightarrow> False)"
| "applies Success name res = (snd res = None)"

text \<open>
  The error of a substitution, if there is one, is a plain error (\<open>fmt.Errorf\<close>), never
  one of the error types of \<open>os\<close> and \<open>os/exec\<close>.
\<close>

fun plain_or_nil :: "go_error option \<Rightarrow> bool" where
  "plain_or_nil None = True"
| "plain_or_nil (Some (OtherError tx)) = True"
| "plain_or_nil (Some e) = False"

text \<open>
  \<open>syscall.WaitStatus.ExitStatus()\<close> on Linux, where a wait status is a \<open>uint32\<close>: the
  exit code in bits 8 to 15 for a process that exited (low seven bits zero), and -1 for
  one that did not, such as a process ended by a signal.
\<close>

unbundle bit_operations_syntax

definition ExitStatus :: "32 word \<Rightarrow> int" where
  "ExitStatus w = (if w AND 0x7F = 0 then uint (drop_bit 8 w AND 0xFF) else - 1)"

definition is_ExitStatus :: "int \<Rightarrow> bool" where
  "is_ExitStatus st = (- 1 \<le> st \<and> st \<le> 255)"

text \<open>
  What a run that ended before the deadline reported, for the error types that have an
  arm of their own in the type switch and for the nil error: the exit status is a value
  of \<open>ExitStatus()\<close>, and the text of an \<open>*os.PathError\<close> (operation, path, colon, system
  error text) has no space or line feed at either end. The default arm is not described.
\<close>

fun run_reported :: "cmd_run \<Rightarrow> bool" where
  "run_reported r =
     (case err r of
        None \<Rightarrow> is_ExitStatus (process_exit_status r)
      | Some (ExitError st se tx) \<Rightarrow> is_ExitStatus st
      | Some (PathError tx) \<Rightarrow> trimmed tx
      | Some (ExecError tx) \<Rightarrow> False
      | Some (OtherError tx) \<Rightarrow> False)"

text \<open>
  White space as the specification's wording has it, for the bytes of ASCII: tab, line
  feed, vertical tab, form feed, carriage return and space (\<open>unicode.IsSpace\<close>).
\<close>

definition whitespace :: string where
  "whitespace = [CHR 0x09, CHR 0x0A, CHR 0x0B, CHR 0x0C, CHR 0x0D, CHR 0x20]"

definition whitespace_trimmed :: "string \<Rightarrow> bool" where
  "whitespace_trimmed s = (s = [] \<or> (hd s \<notin> set whitespace \<and> last s \<notin> set whitespace))"

text \<open>
  The output the specification promises for a run that exits non-zero: trimmed standard
  output if there is any, else standard error if there is any, else the text of the error.
\<close>

definition spec_failure_Output :: "string \<Rightarrow> string \<Rightarrow> string \<Rightarrow> string" where
  "spec_failure_Output stdout stderr tx =
     (if Trim stdout space_newline \<noteq> [] then Trim stdout space_newline
      else if Trim stderr space_newline \<noteq> [] then Trim stderr space_newline
      else tx)"

subsection \<open>Concrete collaborators\<close>

text \<open>
  A substitution that finds nothing to replace, one that fails, a tokenizer that splits
  at spaces, and a run with a fixed answer.
\<close>

definition Substitute_plain :: "string \<Rightarrow> (string \<rightharpoonup> string) \<Rightarrow> string \<times> go_error option" where
  "Substitute_plain value tokens = (value, None)"

definition Substitute_fails :: "string \<Rightarrow> (string \<rightharpoonup> string) \<Rightarrow> string \<times> go_error option" where
  "Substitute_fails value tokens = (value, Some (OtherError ''variable not defined''))"

fun words_from :: "string \<Rightarrow> string \<Rightarrow> string list" where
  "words_from w [] = (if w = [] then [] else [w])"
| "words_from w (c # cs) =
     (if c = CHR 0x20 then (if w = [] then words_from [] cs else w # words_from [] cs)
      else words_from (w @ [c]) cs)"

definition Tokenizer_words :: "string \<Rightarrow> string list" where
  "Tokenizer_words s = words_from [] s"

definition run_gives :: "cmd_run \<Rightarrow> 64 word \<Rightarrow> string \<Rightarrow> string list \<Rightarrow> cmd_run" where
  "run_gives r d b bs = r"

definition no_vars :: "string \<rightharpoonup> string" where
  "no_vars = Map.empty"

definition action_sleep :: Action where
  "action_sleep = \<lparr>Name = ''slow'', Cmd = ''sleep 30'', Timeout = 1\<rparr>"

definition run_killed :: cmd_run where
  "run_killed =
     \<lparr>out = [], err = Some (ExitError (- 1) [] ''signal: killed''),
      deadline_exceeded = True, process_exit_status = 0\<rparr>"

definition action_echo :: Action where
  "action_echo = \<lparr>Name = ''greet'', Cmd = ''echo hello'', Timeout = 5\<rparr>"

definition run_hello :: cmd_run where
  "run_hello =
     \<lparr>out = ''hello'' @ [CHR 0x0A], err = None,
      deadline_exceeded = False, process_exit_status = 0\<rparr>"

definition action_tabs :: Action where
  "action_tabs = \<lparr>Name = ''table'', Cmd = ''./tabs.sh'', Timeout = 5\<rparr>"

definition run_tabs :: cmd_run where
  "run_tabs =
     \<lparr>out = [CHR 0x09] @ ''hello'' @ [CHR 0x09, CHR 0x0A], err = None,
      deadline_exceeded = False, process_exit_status = 0\<rparr>"

definition run_crlf :: cmd_run where
  "run_crlf =
     \<lparr>out = ''hello'' @ [CHR 0x0D, CHR 0x0A], err = None,
      deadline_exceeded = False, process_exit_status = 0\<rparr>"

definition action_selfkill :: Action where
  "action_selfkill = \<lparr>Name = ''stop'', Cmd = ''./selfkill.sh'', Timeout = 5\<rparr>"

definition run_signalled :: cmd_run where
  "run_signalled =
     \<lparr>out = [], err = Some (ExitError (ExitStatus 9) [] ''signal: killed''),
      deadline_exceeded = False, process_exit_status = 0\<rparr>"

definition action_unbound :: Action where
  "action_unbound = \<lparr>Name = ''greet'', Cmd = ''echo ${user}'', Timeout = 0\<rparr>"

definition action_false :: Action where
  "action_false = \<lparr>Name = ''check'', Cmd = ''false'', Timeout = 5\<rparr>"

definition run_false :: cmd_run where
  "run_false =
     \<lparr>out = [], err = Some (ExitError 1 [] ''exit status 1''),
      deadline_exceeded = False, process_exit_status = 1\<rparr>"

definition action_fail :: Action where
  "action_fail = \<lparr>Name = ''check'', Cmd = ''./fail.sh'', Timeout = 5\<rparr>"

definition run_fail :: cmd_run where
  "run_fail =
     \<lparr>out = [], err = Some (ExitError 3 (''boom'' @ [CHR 0x0A]) ''exit status 3''),
      deadline_exceeded = False, process_exit_status = 3\<rparr>"

definition action_nofile :: Action where
  "action_nofile = \<lparr>Name = ''deploy'', Cmd = ''/no/such/binary'', Timeout = 5\<rparr>"

definition run_nofile :: cmd_run where
  "run_nofile =
     \<lparr>out = [],
      err = Some (PathError ''fork/exec /no/such/binary: no such file or directory''),
      deadline_exceeded = False, process_exit_status = 0\<rparr>"

definition action_noname :: Action where
  "action_noname = \<lparr>Name = ''deploy'', Cmd = ''nosuchbinary'', Timeout = 5\<rparr>"

definition not_found_text :: string where
  "not_found_text =
     ''exec: '' @ [CHR 0x22] @ ''nosuchbinary'' @ [CHR 0x22] @
     '': executable file not found in $PATH''"

definition run_noname :: cmd_run where
  "run_noname =
     \<lparr>out = [], err = Some (ExecError not_found_text),
      deadline_exceeded = False, process_exit_status = 0\<rparr>"

section \<open>The Slack remote: remote/slack/remote.go\<close>

subsection \<open>Data\<close>

record Client =
  ListenerPort :: string
  Token :: string
  AppToken :: string
  SigningSecret :: string

text \<open>
  Modelled from the spec: \<open>models.MessageType\<close> is declared outside the given sources. The
  three types that \<open>Send\<close> dispatches on, and one value for any other type.
\<close>

datatype MessageType =
    MsgTypeUnknown
  | MsgTypeDirect
  | MsgTypeChannel
  | MsgTypePrivateChannel

text \<open>
  Modelled from the spec: \<open>models.Message\<close>, \<open>models.Rule\<close> and \<open>models.Bot\<close> are declared
  outside the given sources. The records hold the fields of the spec's data model that
  the code under study reads or writes; \<open>Message_ID\<close>, \<open>Message_Output\<close> and \<open>Rule_Name\<close>
  are the fields \<open>ID\<close>, \<open>Output\<close> and \<open>Name\<close> of a message and of a rule.
\<close>

record Message =
  Message_ID :: string
  ChannelID :: string
  Timestamp :: string
  Type :: MessageType
  Message_Output :: string
  Vars :: "string \<rightharpoonup> string"
  StartTime :: int
  EndTime :: int

record Rule =
  Rule_Name :: string
  Reaction :: string
  RemoveReaction :: string

record Bot =
  ID :: string
  Rooms :: "string \<rightharpoonup> string"
  SlackToken :: string
  Debug :: bool
  CLI :: bool
  InteractiveComponents :: bool
  SlackInteractionsCallbackPath :: string

text \<open>
  The answers of the Slack API client that \<open>c.new()\<close> creates. A reference to a message
  (\<open>slack.NewRefToMessage\<close>) is the pair of its channel and its timestamp. \<open>AuthTest\<close>
  answers with an error or with the user ID of the bot.
\<close>

type_synonym ItemRef = "string \<times> string"

record slack_api =
  api_RemoveReaction :: "string \<Rightarrow> ItemRef \<Rightarrow> go_error option"
  api_AddReaction :: "string \<Rightarrow> ItemRef \<Rightarrow> go_error option"
  api_AuthTest :: "go_error + string"

text \<open>
  What the code does to the outside, in the order it does it: lines written to the bot's
  log, calls of the Slack API, the call of \<open>send\<close>, the start of the HTTP server and the
  processing of a rule.
\<close>

datatype log_level = LogDebug | LogInfo | LogWarn | LogError

datatype event =
    Log log_level string
  | RemoveReaction_call string ItemRef
  | AddReaction_call string ItemRef
  | getRooms_call
  | AuthTest_call
  | send_call Message
  | ListenAndServe string
  | processInteractiveComponentRule_call Rule Message

definition quoted :: "string \<Rightarrow> string" where
  "quoted s = [CHR 0x27] @ s @ [CHR 0x27]"

definition dquoted :: "string \<Rightarrow> string" where
  "dquoted s = [CHR 0x22] @ s @ [CHR 0x22]"

subsection \<open>Reaction\<close>

text \<open>
  The second half of \<open>Reaction\<close> (lines 50 to 61): the reaction of the rule is added.
\<close>

definition add_part :: "slack_api \<Rightarrow> Message \<Rightarrow> Rule \<Rightarrow> event list" where
  "add_part api message rule =
     (if Reaction rule \<noteq> [] then
        (let msgRef = (ChannelID message, Timestamp message)
         in AddReaction_call (Reaction rule) msgRef #
            (case api_AddReaction api (Reaction rule) msgRef of
               Some e \<Rightarrow> [Log LogError (''could not add reaction: '' @ Error e)]
             | None \<Rightarrow>
                 [Log LogInfo (''added reaction '' @ quoted (Reaction rule) @ '' for rule ''
                               @ quoted (Rule_Name rule))]))
      else [])"

text \<open>
  \<open>Reaction\<close> returns nothing; the model gives the events of the call in order. A failed
  removal is logged (with the text of the other branch) and ends the call at line 46.
\<close>

definition Client_Reaction :: "slack_api \<Rightarrow> Message \<Rightarrow> Rule \<Rightarrow> event list" where
  "Client_Reaction api message rule =
     (if RemoveReaction rule \<noteq> [] then
        (let msgRef = (ChannelID message, Timestamp message)
         in RemoveReaction_call (RemoveReaction rule) msgRef #
            (case api_RemoveReaction api (RemoveReaction rule) msgRef of
               Some e \<Rightarrow> [Log LogError (''could not add reaction: '' @ Error e)]
             | None \<Rightarrow>
                 Log LogInfo (''removed reaction '' @ quoted (RemoveReaction rule)
                              @ '' for rule '' @ quoted (Rule_Name rule)) #
                 add_part api message rule))
      else add_part api message rule)"

subsection \<open>Read\<close>

text \<open>
  The state \<open>Read\<close> and \<open>InteractiveComponents\<close> work on: the bot, the messages written to
  the channel \<open>inputMsgs\<close>, the package variable \<open>interactionsRouter\<close> (\<open>None\<close> for nil,
  else the routes registered so far) and the events so far.
\<close>

datatype http_handler =
    InteractiveComponentHealthHandler
  | InteractiveComponentRuleHandler string Rule

type_synonym route = "string \<times> http_handler \<times> string"

record world =
  bot :: Bot
  inputMsgs :: "Message list"
  interactionsRouter :: "route list option"
  trace :: "event list"

definition emit :: "event list \<Rightarrow> world \<Rightarrow> world" where
  "emit es w = w\<lparr>trace := trace w @ es\<rparr>"

text \<open>
  \<open>Read\<close>, with \<open>getRooms\<close>, \<open>readFromSocketMode\<close> and \<open>readFromEventsAPI\<close> (of this
  repository, outside the given sources) as parameters. The two readers run as long as
  the connection lasts: they give \<open>None\<close> when they do not return, and so does \<open>Read\<close>.
  The socket-mode client is given by the options it is built from.

  \<open>start_reader\<close> is the part of \<open>Read\<close> after the bot's ID is set (lines 84 to 108).
\<close>

definition unauthorized_message :: string where
  "unauthorized_message =
     ''the '' @ quoted ''slack_token'' @
     '' that was provided was invalid or is unauthorized - closing slack message reader''"

definition start_reader ::
  "(string \<Rightarrow> bool \<Rightarrow> string \<Rightarrow> world \<Rightarrow> world option) \<Rightarrow>
   (slack_api \<Rightarrow> string \<Rightarrow> world \<Rightarrow> world option) \<Rightarrow>
   Client \<Rightarrow> slack_api \<Rightarrow> world \<Rightarrow> world option"
where
  "start_reader readFromSocketMode readFromEventsAPI c api w =
     (case (if AppToken c \<noteq> [] then
              readFromSocketMode (SlackToken (bot w)) (Debug (bot w)) (AppToken c) w
            else if SigningSecret c \<noteq> [] then
              readFromEventsAPI api (SigningSecret c) w
            else Some w) of
        None \<Rightarrow> None
      | Some w' \<Rightarrow>
          Some (if AppToken c = [] \<and> SigningSecret c = [] \<and> \<not> CLI (bot w')
                then emit [Log LogError
                  ''cli mode is disabled and tokens are not set up correctly to run the bot''] w'
                else w'))"

definition Client_Read ::
  "(slack_api \<Rightarrow> (string \<rightharpoonup> string)) \<Rightarrow>
   (string \<Rightarrow> bool \<Rightarrow> string \<Rightarrow> world \<Rightarrow> world option) \<Rightarrow>
   (slack_api \<Rightarrow> string \<Rightarrow> world \<Rightarrow> world option) \<Rightarrow>
   Client \<Rightarrow> slack_api \<Rightarrow> world \<Rightarrow> world option"
where
  "Client_Read getRooms readFromSocketMode readFromEventsAPI c api w =
     (let w1 = emit [getRooms_call] w;
          w2 = w1\<lparr>bot := (bot w1)\<lparr>Rooms := getRooms api\<rparr>\<rparr>;
          w3 = emit [AuthTest_call] w2
      in case api_AuthTest api of
           Inl e \<Rightarrow>
             Some (emit [Log LogError unauthorized_message] w3)
         | Inr UserID \<Rightarrow>
             start_reader readFromSocketMode readFromEventsAPI c api
               (w3\<lparr>bot := (bot w3)\<lparr>ID := UserID\<rparr>\<rparr>))"

subsection \<open>Send\<close>

text \<open>
  \<open>Send\<close>, with the constant \<open>slack.MaxMessageTextLength\<close> of the Slack library and the
  time stamp that \<open>models.MessageTimestamp()\<close> gives as parameters. The message is passed
  by value; the events are the log lines and the call of \<open>send\<close> with the message as it
  is then. The constant is at least 3 (the slice bound \<open>MaxMessageTextLength - 3\<close> is a
  constant expression that Go rejects when negative).
\<close>

definition Client_Send :: "nat \<Rightarrow> int \<Rightarrow> Message \<Rightarrow> event list" where
  "Client_Send MaxMessageTextLength now message =
     (let message1 =
            (if length (Message_Output message) > MaxMessageTextLength
             then message\<lparr>Message_Output :=
                    take (MaxMessageTextLength - 3) (Message_Output message) @ ''...''\<rparr>
             else message);
          message2 = message1\<lparr>EndTime := now\<rparr>
      in Log LogDebug (''sending message '' @ quoted (Message_ID message)) #
         (case Type message2 of
            MsgTypeDirect \<Rightarrow> [send_call message2]
          | MsgTypeChannel \<Rightarrow> [send_call message2]
          | MsgTypePrivateChannel \<Rightarrow> [send_call message2]
          | _ \<Rightarrow> [Log LogWarn ''received unknown message type - no message to send'']))"

text \<open>The messages handed to \<open>send\<close>, in order.\<close>

fun transmitted :: "event list \<Rightarrow> Message list" where
  "transmitted [] = []"
| "transmitted (send_call m # es) = m # transmitted es"
| "transmitted (e # es) = transmitted es"

subsection \<open>InteractiveComponents\<close>

text \<open>The addresses on which an HTTP server has been started, in order.\<close>

fun listeners :: "event list \<Rightarrow> string list" where
  "listeners [] = []"
| "listeners (ListenAndServe addr # es) = addr # listeners es"
| "listeners (e # es) = listeners es"

text \<open>
  \<open>InteractiveComponents\<close>, with \<open>isValidPath\<close> (of this repository, outside the given
  sources) as a parameter. The handlers are named by their constructor functions and what
  these are given; \<open>processInteractiveComponentRule\<close> is an event. An invalid path leaves
  the router with the health route and no server (line 163).
\<close>

definition Client_InteractiveComponents ::
  "(string \<Rightarrow> bool) \<Rightarrow> Client \<Rightarrow> Message \<Rightarrow> Rule \<Rightarrow> world \<Rightarrow> world"
where
  "Client_InteractiveComponents isValidPath c message rule w =
     (if InteractiveComponents (bot w) \<and> SigningSecret c \<noteq> [] then
        if SlackInteractionsCallbackPath (bot w) = [] then
          emit [Log LogError (''need to specify a callback path for the '' @
                   quoted ''slack_interactions_callback_path'' @ '' field in the bot.yml (e.g. '' @
                   dquoted ''/slack_events/v1/mybot_dev-v1_interactions'' @ '')''),
                Log LogWarn ''closing interactions reader (will not be able to read interactive components)''] w
        else
          (case interactionsRouter w of
             None \<Rightarrow>
               (let w1 = w\<lparr>interactionsRouter :=
                             Some [(''/interaction_health'', InteractiveComponentHealthHandler, ''GET'')]\<rparr>;
                    ruleHandle = InteractiveComponentRuleHandler (SigningSecret c) rule
                in if \<not> isValidPath (SlackInteractionsCallbackPath (bot w1)) then
                     emit [Log LogError (''invalid events path - please double check your path value/syntax (e.g. '' @
                             dquoted ''/slack_events/v1/mybot_dev-v1_interactions'' @ '')''),
                           Log LogWarn ''closing interaction components reader (will not be able to read interactive components)''] w1
                   else
                     (let w2 = w1\<lparr>interactionsRouter :=
                                    Some [(''/interaction_health'', InteractiveComponentHealthHandler, ''GET''),
                                          (SlackInteractionsCallbackPath (bot w1), ruleHandle, ''POST'')]\<rparr>;
                          w3 = emit [ListenAndServe '':4000'',
                                     Log LogInfo (''slack interactive components server is listening to ''
                                                  @ quoted (SlackInteractionsCallbackPath (bot w2)))] w2
                      in emit [processInteractiveComponentRule_call rule message] w3))
           | Some router \<Rightarrow> emit [processInteractiveComponentRule_call rule message] w)
      else w)"

subsection \<open>Concrete inputs\<close>

definition api_removal_fails :: slack_api where
  "api_removal_fails =
     \<lparr>api_RemoveReaction = (\<lambda>name ref. Some (OtherError ''no_reaction'')),
      api_AddReaction = (\<lambda>name ref. None),
      api_AuthTest = Inr ''U123''\<rparr>"

definition api_authorized :: slack_api where
  "api_authorized =
     \<lparr>api_RemoveReaction = (\<lambda>name ref. None),
      api_AddReaction = (\<lambda>name ref. None),
      api_AuthTest = Inr ''U123''\<rparr>"

definition api_unauthorized :: slack_api where
  "api_unauthorized =
     \<lparr>api_RemoveReaction = (\<lambda>name ref. None),
      api_AddReaction = (\<lambda>name ref. None),
      api_AuthTest = Inl (OtherError ''invalid_auth'')\<rparr>"

definition message0 :: Message where
  "message0 =
     \<lparr>Message_ID = ''m1'', ChannelID = ''C1'', Timestamp = ''1700000000.000100'',
      Type = MsgTypeChannel, Message_Output = ''done'', Vars = Map.empty,
      StartTime = 0, EndTime = 0\<rparr>"

definition rule_swap :: Rule where
  "rule_swap = \<lparr>Rule_Name = ''deploy'', Reaction = ''white_check_mark'', RemoveReaction = ''eyes''\<rparr>"

definition bot0 :: Bot where
  "bot0 =
     \<lparr>ID = [], Rooms = Map.empty, SlackToken = ''xoxb-1'', Debug = False, CLI = False,
      InteractiveComponents = True,
      SlackInteractionsCallbackPath = ''/slack_events/v1/mybot_dev-v1_interactions''\<rparr>"

definition client0 :: Client where
  "client0 = \<lparr>ListenerPort = ''3000'', Token = ''xoxb-1'', AppToken = [], SigningSecret = ''s3cret''\<rparr>"

definition world0 :: world where
  "world0 = \<lparr>bot = bot0, inputMsgs = [], interactionsRouter = None, trace = []\<rparr>"

definition path_ok :: "string \<Rightarrow> bool" where
  "path_ok p = (p \<noteq> [] \<and> hd p = CHR ''/'')"

definition rooms1 :: "slack_api \<Rightarrow> (string \<rightharpoonup> string)" where
  "rooms1 api = [''general'' \<mapsto> ''C1'']"

definition socket_silent :: "string \<Rightarrow> bool \<Rightarrow> string \<Rightarrow> world \<Rightarrow> world option" where
  "socket_silent token debug appToken w = Some w"

definition events_silent :: "slack_api \<Rightarrow> string \<Rightarrow> world \<Rightarrow> world option" where
  "events_silent api secret w = Some w"

definition message_long :: Message where
  "message_long = message0\<lparr>Message_Output := replicate 4500 (CHR ''x'')\<rparr>"

definition message_untyped :: Message where
  "message_untyped = message0\<lparr>Type := MsgTypeUnknown\<rparr>"

section \<open>Properties of script execution\<close>

subsection \<open>Trimming\<close>

lemma last_dropWhile: "dropWhile P xs \<noteq> [] \<Longrightarrow> last (dropWhile P xs) = last xs"
  by (induction xs) (auto split: if_splits)

lemma Trim_trimmed: "trimmed (Trim s space_newline)"
proof (cases "dropWhile (\<lambda>c. c \<in> set space_newline) s")
  case Nil
  have "Trim s space_newline = []" unfolding Trim_def Nil by simp
  then show ?thesis by (simp add: trimmed_def)
next
  case (Cons a t)
  let ?P = "\<lambda>c. c \<in> set space_newline"
  let ?d = "dropWhile ?P (rev (a # t))"
  have a: "\<not> ?P a" using Cons hd_dropWhile[of ?P s] by (metis list.sel(1) list.distinct(1))
  have lr: "last (rev (a # t)) = a" by simp
  have ne: "?d \<noteq> []"
  proof
    assume "?d = []"
    then have "\<forall>x \<in> set (rev (a # t)). ?P x" by (simp add: dropWhile_eq_Nil_conv)
    then show False using a by simp
  qed
  have "last ?d = a" using last_dropWhile[OF ne] lr by simp
  then have h: "hd (rev ?d) = a" using ne by (simp add: hd_rev)
  have "\<not> ?P (hd ?d)" using ne hd_dropWhile[of ?P "rev (a # t)"] by blast
  then have l: "\<not> ?P (last (rev ?d))" using ne by (simp add: last_rev)
  have "Trim s space_newline = rev ?d" using Cons by (simp add: Trim_def)
  then show ?thesis using h l a ne by (simp add: trimmed_def)
qed

lemma trimmed_Nil: "trimmed []"
  by (simp add: trimmed_def)

lemma timeout_message_trimmed: "trimmed timeout_message"
  by (simp add: trimmed_def timeout_message_def space_newline_def)

subsection \<open>The four outcomes of the specification\<close>

text \<open>
  Claim C1. When the command has been started and the deadline of the context has passed
  by the time \<open>cmd.Output()\<close> returns, \<open>ScriptExec\<close> returns the response with the
  default status 1 and the fixed output \<open>Hmm, something timed out. Please try again.\<close>,
  together with a non-nil error, the timeout error that names the action.
\<close>

theorem ScriptExec_timeout:
  assumes "Substitute (Cmd args) vars = (cmdProcessed, None)"
    and "ExecArgTokenizer cmdProcessed = b # bs"
    and "deadline_exceeded
           (run (Duration_Second (if Timeout args = 0 then 20 else Timeout args)) b bs)"
  shows "ScriptExec Substitute ExecArgTokenizer run args vars =
           Inr (\<lparr>Status = 1, Output = ''Hmm, something timed out. Please try again.''\<rparr>,
                Some (timeout_error (Name args)))"
  using assms by (simp add: ScriptExec_def timeout_message_def Let_def)

theorem ScriptExec_timeout_witness:
  "Substitute_plain (Cmd action_sleep) no_vars = (''sleep 30'', None) \<and>
   Tokenizer_words ''sleep 30'' = [''sleep'', ''30''] \<and>
   deadline_exceeded (run_gives run_killed
      (Duration_Second (if Timeout action_sleep = 0 then 20 else Timeout action_sleep))
      ''sleep'' [''30'']) \<and>
   ScriptExec Substitute_plain Tokenizer_words (run_gives run_killed) action_sleep no_vars =
     Inr (\<lparr>Status = 1, Output = ''Hmm, something timed out. Please try again.''\<rparr>,
          Some (timeout_error ''slow''))"
  using ScriptExec_timeout [of Substitute_plain action_sleep no_vars "''sleep 30''"
      Tokenizer_words "''sleep''" "[''30'']" "run_gives run_killed"]
  by (simp add: Substitute_plain_def action_sleep_def Tokenizer_words_def run_gives_def
      run_killed_def)

text \<open>
  Claim C2, amended. When the command returns before the deadline without an error and
  with exit status 0, \<open>ScriptExec\<close> returns status 0, the standard output with the
  surrounding spaces and line feeds removed, and a nil error. Other white space at the
  ends of the output, such as a tab or a carriage return, stays.
\<close>

theorem ScriptExec_success:
  assumes "Substitute (Cmd args) vars = (cmdProcessed, None)"
    and "ExecArgTokenizer cmdProcessed = b # bs"
    and "r = run (Duration_Second (if Timeout args = 0 then 20 else Timeout args)) b bs"
    and "\<not> deadline_exceeded r"
    and "err r = None"
    and "process_exit_status r = 0"
  shows "ScriptExec Substitute ExecArgTokenizer run args vars =
           Inr (\<lparr>Status = 0, Output = Trim (out r) space_newline\<rparr>, None)"
  using assms by (simp add: ScriptExec_def Let_def)

theorem ScriptExec_success_witness:
  "Substitute_plain (Cmd action_echo) no_vars = (''echo hello'', None) \<and>
   Tokenizer_words ''echo hello'' = [''echo'', ''hello''] \<and>
   \<not> deadline_exceeded run_hello \<and> err run_hello = None \<and> process_exit_status run_hello = 0 \<and>
   ScriptExec Substitute_plain Tokenizer_words (run_gives run_hello) action_echo no_vars =
     Inr (\<lparr>Status = 0, Output = ''hello''\<rparr>, None)"
  using ScriptExec_success [of Substitute_plain action_echo no_vars "''echo hello''"
      Tokenizer_words "''echo''" "[''hello'']" run_hello "run_gives run_hello"]
  by (simp add: Substitute_plain_def action_echo_def Tokenizer_words_def run_gives_def
      run_hello_def Trim_def space_newline_def)

text \<open>
  The claim as stated fails for a command that writes tabs around its output: only the
  final line feed is removed, where trimming the white space would leave \<open>hello\<close>.
\<close>

theorem ScriptExec_success_counterexample:
  "ScriptExec Substitute_plain Tokenizer_words (run_gives run_tabs) action_tabs no_vars =
     Inr (\<lparr>Status = 0, Output = [CHR 0x09] @ ''hello'' @ [CHR 0x09]\<rparr>, None) \<and>
   Trim (out run_tabs) whitespace = ''hello''"
  by (simp add: ScriptExec_def Substitute_plain_def action_tabs_def Tokenizer_words_def
      run_gives_def run_tabs_def Trim_def space_newline_def whitespace_def)

text \<open>
  Claim C3, amended. When the command runs and fails before the deadline with an
  \<open>*exec.ExitError\<close>, the status is the \<open>ExitStatus()\<close> of the error's wait status and
  the error is returned; the output is the trimmed standard output if that is not empty,
  and the trimmed standard error otherwise, also when the standard error is empty: the
  text of the error is not used on this path.
\<close>

theorem ScriptExec_exit_error:
  assumes "Substitute (Cmd args) vars = (cmdProcessed, None)"
    and "ExecArgTokenizer cmdProcessed = b # bs"
    and "r = run (Duration_Second (if Timeout args = 0 then 20 else Timeout args)) b bs"
    and "\<not> deadline_exceeded r"
    and "err r = Some (ExitError st se tx)"
  shows "ScriptExec Substitute ExecArgTokenizer run args vars =
           Inr (\<lparr>Status = st,
                 Output = (if Trim (out r) space_newline \<noteq> [] then Trim (out r) space_newline
                           else Trim se space_newline)\<rparr>,
                Some (ExitError st se tx))"
  using assms by (simp add: ScriptExec_def Let_def)

theorem ScriptExec_exit_error_witness:
  "Substitute_plain (Cmd action_fail) no_vars = (''./fail.sh'', None) \<and>
   Tokenizer_words ''./fail.sh'' = [''./fail.sh''] \<and>
   \<not> deadline_exceeded run_fail \<and>
   err run_fail = Some (ExitError 3 (''boom'' @ [CHR 0x0A]) ''exit status 3'') \<and>
   ScriptExec Substitute_plain Tokenizer_words (run_gives run_fail) action_fail no_vars =
     Inr (\<lparr>Status = 3, Output = ''boom''\<rparr>,
          Some (ExitError 3 (''boom'' @ [CHR 0x0A]) ''exit status 3''))"
  using ScriptExec_exit_error [of Substitute_plain action_fail no_vars "''./fail.sh''"
      Tokenizer_words "''./fail.sh''" "[]" run_fail "run_gives run_fail" 3
      "''boom'' @ [CHR 0x0A]" "''exit status 3''"]
  by (simp add: Substitute_plain_def action_fail_def Tokenizer_words_def run_gives_def
      run_fail_def Trim_def space_newline_def)

text \<open>
  The claim as stated fails for a command such as \<open>false\<close>, which exits with status 1 and
  writes nothing: the output is empty, where the claim promises the text of the error.
\<close>

theorem ScriptExec_exit_error_counterexample:
  "ScriptExec Substitute_plain Tokenizer_words (run_gives run_false) action_false no_vars =
     Inr (\<lparr>Status = 1, Output = []\<rparr>, Some (ExitError 1 [] ''exit status 1'')) \<and>
   spec_failure_Output (out run_false) [] ''exit status 1'' = ''exit status 1''"
  by (simp add: ScriptExec_def Substitute_plain_def action_false_def Tokenizer_words_def
      run_gives_def run_false_def spec_failure_Output_def Trim_def)

text \<open>
  The arm for \<open>*os.PathError\<close>: when the start of the command fails before the deadline
  with such an error (the given path does not exist or cannot be executed), \<open>ScriptExec\<close>
  returns status 127 and the error; the output is the text of the error, unless the
  trimmed standard output is not empty, which then takes its place as after every failed
  run (a command that was never started has written nothing).
\<close>

theorem ScriptExec_path_error:
  assumes "Substitute (Cmd args) vars = (cmdProcessed, None)"
    and "ExecArgTokenizer cmdProcessed = b # bs"
    and "r = run (Duration_Second (if Timeout args = 0 then 20 else Timeout args)) b bs"
    and "\<not> deadline_exceeded r"
    and "err r = Some (PathError tx)"
  shows "ScriptExec Substitute ExecArgTokenizer run args vars =
           Inr (\<lparr>Status = 127,
                 Output = (if Trim (out r) space_newline \<noteq> [] then Trim (out r) space_newline
                           else tx)\<rparr>,
                Some (PathError tx))"
  using assms by (simp add: ScriptExec_def Let_def)

theorem ScriptExec_path_error_witness:
  "Substitute_plain (Cmd action_nofile) no_vars = (''/no/such/binary'', None) \<and>
   Tokenizer_words ''/no/such/binary'' = [''/no/such/binary''] \<and>
   \<not> deadline_exceeded run_nofile \<and>
   err run_nofile = Some (PathError ''fork/exec /no/such/binary: no such file or directory'') \<and>
   ScriptExec Substitute_plain Tokenizer_words (run_gives run_nofile) action_nofile no_vars =
     Inr (\<lparr>Status = 127, Output = ''fork/exec /no/such/binary: no such file or directory''\<rparr>,
          Some (PathError ''fork/exec /no/such/binary: no such file or directory''))"
  using ScriptExec_path_error [of Substitute_plain action_nofile no_vars "''/no/such/binary''"
      Tokenizer_words "''/no/such/binary''" "[]" run_nofile "run_gives run_nofile"
      "''fork/exec /no/such/binary: no such file or directory''"]
  by (simp add: Substitute_plain_def action_nofile_def Tokenizer_words_def run_gives_def
      run_nofile_def Trim_def)

text \<open>
  Claim C4, at an input where it fails. The command is a name without a path separator
  that is not found: \<open>exec.CommandContext\<close> searches the directories of \<open>PATH\<close>, and the
  failure of that search is an \<open>*exec.Error\<close>. The type switch has no arm for it, so it
  takes the default arm, which its comment expects to be hit rarely or never: the status
  stays 1, where the arm for \<open>*os.PathError\<close> gives 127 to an executable that is not
  found.
\<close>

theorem ScriptExec_name_not_found:
  "ScriptExec Substitute_plain Tokenizer_words (run_gives run_noname) action_noname no_vars =
     Inr (\<lparr>Status = 1, Output = not_found_text\<rparr>, Some (ExecError not_found_text)) \<and>
   Status (fst (\<lparr>Status = 1, Output = not_found_text\<rparr>, Some (ExecError not_found_text))) \<noteq> 127"
  by (simp add: ScriptExec_def Substitute_plain_def action_noname_def Tokenizer_words_def
      run_gives_def run_noname_def Trim_def space_newline_def not_found_text_def)

subsection \<open>Every invocation\<close>

lemma ExitStatus_range: "is_ExitStatus (ExitStatus w)"
proof (cases "w AND 0x7F = 0")
  case True
  let ?c = "drop_bit 8 w AND (0xFF :: 32 word)"
  have "?c \<le> 0xFF"
    by (rule word_and_le1)
  then have "uint ?c \<le> uint (0xFF :: 32 word)"
    by (simp only: word_le_def)
  then have hi: "uint ?c \<le> 255" by simp
  have "0 \<le> uint ?c" by (rule uint_ge_0)
  then have lo: "- 1 \<le> uint ?c" by linarith
  have "ExitStatus w = uint ?c" using True by (simp add: ExitStatus_def)
  then show ?thesis using lo hi unfolding is_ExitStatus_def by (simp only:)
next
  case False
  then have "ExitStatus w = - 1" by (simp add: ExitStatus_def)
  then show ?thesis by (simp add: is_ExitStatus_def)
qed

lemma ExitStatus_signal: "ExitStatus 9 = - 1"
  by (simp add: ExitStatus_def)

lemma timeout_message_not_Nil: "timeout_message \<noteq> []"
  by (simp add: timeout_message_def)

lemma applies_unique:
  "applies o1 name res \<Longrightarrow> applies o2 name res \<Longrightarrow> o1 = o2"
  by (cases o1; cases o2)
     (auto simp: timeout_error_def timeout_message_not_Nil
           split: option.splits go_error.splits)

lemma returned_ok:
  assumes "applies o1 name res" and "trimmed (Output (fst res))"
    and "is_ExitStatus (Status (fst res))"
  shows "(\<exists>!o2. applies o2 name res) \<and> trimmed (Output (fst res)) \<and>
         - 1 \<le> Status (fst res) \<and> Status (fst res) \<le> 255"
proof -
  have "\<exists>!o2. applies o2 name res"
    using assms(1) applies_unique by blast
  then show ?thesis using assms(2,3) by (simp add: is_ExitStatus_def)
qed

text \<open>
  Claim C9, amended. Every invocation that fails in the substitution, or whose run ends
  with a nil error, an \<open>*exec.ExitError\<close> or an \<open>*os.PathError\<close>, or passes the deadline,
  returns, and exactly one of five outcomes applies to the returned result: substitution
  failure, timeout, lookup failure, non-zero exit or success. The returned output is
  always free of surrounding spaces and line feeds. The returned status is always a
  small integer, from -1 to 255, where -1 is the exit status of a process that was ended
  by a signal. Run errors of other types, which take the default arm of the type switch,
  are left out.
\<close>

theorem ScriptExec_outcomes:
  assumes "Substitute (Cmd args) vars = (cmdProcessed, sub)"
    and "plain_or_nil sub"
    and "sub = None \<longrightarrow> ExecArgTokenizer cmdProcessed = b # bs"
    and "r = run (Duration_Second (if Timeout args = 0 then 20 else Timeout args)) b bs"
    and "sub = None \<and> \<not> deadline_exceeded r \<longrightarrow> run_reported r"
  shows "\<exists>res. ScriptExec Substitute ExecArgTokenizer run args vars = Inr res \<and>
           (\<exists>!o1. applies o1 (Name args) res) \<and>
           trimmed (Output (fst res)) \<and>
           - 1 \<le> Status (fst res) \<and> Status (fst res) \<le> 255"
proof (cases sub)
  case (Some e)
  then obtain tx where e: "e = OtherError tx"
    using assms(2) by (cases e) simp_all
  let ?res = "(\<lparr>Status = 1, Output = []\<rparr>, Some (OtherError tx))"
  have "ScriptExec Substitute ExecArgTokenizer run args vars = Inr ?res"
    using assms(1) Some e by (simp add: ScriptExec_def)
  moreover have "applies SubstitutionFailure (Name args) ?res" by simp
  moreover have "trimmed (Output (fst ?res))" by (simp add: trimmed_Nil)
  moreover have "is_ExitStatus (Status (fst ?res))" by (simp add: is_ExitStatus_def)
  ultimately show ?thesis using returned_ok by blast
next
  case None
  note sub = None
  have tok: "ExecArgTokenizer cmdProcessed = b # bs" using assms(3) sub by simp
  show ?thesis
  proof (cases "deadline_exceeded r")
    case True
    let ?res = "(\<lparr>Status = 1, Output = timeout_message\<rparr>, Some (timeout_error (Name args)))"
    have "ScriptExec Substitute ExecArgTokenizer run args vars = Inr ?res"
      using assms(1,4) sub tok True by (simp add: ScriptExec_def Let_def)
    moreover have "applies TimeoutReached (Name args) ?res" by simp
    moreover have "trimmed (Output (fst ?res))" by (simp add: timeout_message_trimmed)
    moreover have "is_ExitStatus (Status (fst ?res))" by (simp add: is_ExitStatus_def)
    ultimately show ?thesis using returned_ok by blast
  next
    case False
    have rep: "run_reported r" using assms(5) sub False by simp
    show ?thesis
    proof (cases "err r")
      case None
      let ?res = "(\<lparr>Status = process_exit_status r, Output = Trim (out r) space_newline\<rparr>,
                   None :: go_error option)"
      have "ScriptExec Substitute ExecArgTokenizer run args vars = Inr ?res"
        using assms(1,4) sub tok False None by (simp add: ScriptExec_def Let_def)
      moreover have "applies Success (Name args) ?res" by simp
      moreover have "trimmed (Output (fst ?res))" by (simp add: Trim_trimmed)
      moreover have "is_ExitStatus (Status (fst ?res))" using rep None by simp
      ultimately show ?thesis using returned_ok by blast
    next
      case (Some e)
      show ?thesis
      proof (cases e)
        case (ExitError st se tx)
        let ?res = "(\<lparr>Status = st,
                      Output = (if Trim (out r) space_newline \<noteq> []
                                then Trim (out r) space_newline
                                else Trim se space_newline)\<rparr>, Some e)"
        have "ScriptExec Substitute ExecArgTokenizer run args vars = Inr ?res"
          using assms(1,4) sub tok False Some ExitError by (simp add: ScriptExec_def Let_def)
        moreover have "applies NonZeroExit (Name args) ?res" using ExitError by simp
        moreover have "trimmed (Output (fst ?res))" by (simp add: Trim_trimmed)
        moreover have "is_ExitStatus (Status (fst ?res))" using rep Some ExitError by simp
        ultimately show ?thesis using returned_ok by blast
      next
        case (PathError tx)
        let ?res = "(\<lparr>Status = 127,
                      Output = (if Trim (out r) space_newline \<noteq> []
                                then Trim (out r) space_newline else tx)\<rparr>, Some e)"
        have "ScriptExec Substitute ExecArgTokenizer run args vars = Inr ?res"
          using assms(1,4) sub tok False Some PathError by (simp add: ScriptExec_def Let_def)
        moreover have "applies LookupFailure (Name args) ?res" using PathError by simp
        moreover have "trimmed (Output (fst ?res))"
          using rep Some PathError by (simp add: Trim_trimmed)
        moreover have "is_ExitStatus (Status (fst ?res))" by (simp add: is_ExitStatus_def)
        ultimately show ?thesis using returned_ok by blast
      next
        case (ExecError tx)
        then show ?thesis using rep Some by simp
      next
        case (OtherError tx)
        then show ?thesis using rep Some by simp
      qed
    qed
  qed
qed

theorem ScriptExec_outcomes_witness:
  "Substitute_plain (Cmd action_echo) no_vars = (''echo hello'', None) \<and>
   plain_or_nil None \<and>
   Tokenizer_words ''echo hello'' = [''echo'', ''hello''] \<and>
   \<not> deadline_exceeded run_hello \<and> run_reported run_hello \<and>
   (\<exists>res. ScriptExec Substitute_plain Tokenizer_words (run_gives run_hello) action_echo no_vars
            = Inr res \<and>
      (\<exists>!o1. applies o1 ''greet'' res) \<and>
      trimmed (Output (fst res)) \<and> - 1 \<le> Status (fst res) \<and> Status (fst res) \<le> 255)"
  using ScriptExec_outcomes [of Substitute_plain action_echo no_vars "''echo hello''" None
      Tokenizer_words "''echo''" "[''hello'']" run_hello "run_gives run_hello"]
  by (simp add: Substitute_plain_def action_echo_def Tokenizer_words_def run_gives_def
      run_hello_def is_ExitStatus_def)

text \<open>
  The claim as stated fails in three places. When the substitution fails, the default
  response is returned with the error of the substitution, and none of the four outcomes
  of the claim applies to it. An output that ends with a carriage return and a line feed
  keeps the carriage return, which is white space. A process that is ended by a signal
  before the deadline has the exit status -1, which becomes the status.
\<close>

theorem ScriptExec_outcomes_counterexample:
  "ScriptExec Substitute_fails Tokenizer_words (run_gives run_hello) action_unbound no_vars =
     Inr (\<lparr>Status = 1, Output = []\<rparr>, Some (OtherError ''variable not defined'')) \<and>
   \<not> (\<exists>o1 \<in> {TimeoutReached, LookupFailure, NonZeroExit, Success}.
        applies o1 (Name action_unbound)
          (\<lparr>Status = 1, Output = []\<rparr>, Some (OtherError ''variable not defined''))) \<and>
   ScriptExec Substitute_plain Tokenizer_words (run_gives run_crlf) action_echo no_vars =
     Inr (\<lparr>Status = 0, Output = ''hello'' @ [CHR 0x0D]\<rparr>, None) \<and>
   \<not> whitespace_trimmed (''hello'' @ [CHR 0x0D]) \<and>
   ScriptExec Substitute_plain Tokenizer_words (run_gives run_signalled) action_selfkill no_vars =
     Inr (\<lparr>Status = - 1, Output = []\<rparr>, Some (ExitError (- 1) [] ''signal: killed'')) \<and>
   \<not> (0::int) \<le> - 1"
  by (simp add: ScriptExec_def Substitute_fails_def Substitute_plain_def action_unbound_def
      action_echo_def action_selfkill_def Tokenizer_words_def run_gives_def run_crlf_def
      run_signalled_def ExitStatus_def Trim_def space_newline_def timeout_message_def
      whitespace_trimmed_def whitespace_def)

section \<open>Properties of the Slack remote\<close>

subsection \<open>Send\<close>

text \<open>
  Claim C5. For a message of one of the three types that are sent, with the maximum
  length at least 3: an output longer than the maximum is cut to its first (maximum - 3)
  bytes followed by \<open>...\<close>, so that what is transmitted has exactly the maximum length
  and ends with \<open>...\<close>; an output at or below the maximum is transmitted as it is.
  Lengths count bytes, as \<open>len\<close> does.
\<close>

theorem Send_truncates:
  assumes "Type message \<in> {MsgTypeDirect, MsgTypeChannel, MsgTypePrivateChannel}"
    and "3 \<le> MaxLen"
  shows "map Message_Output (transmitted (Client_Send MaxLen now message)) =
           [if MaxLen < length (Message_Output message)
            then take (MaxLen - 3) (Message_Output message) @ ''...''
            else Message_Output message] \<and>
         (MaxLen < length (Message_Output message) \<longrightarrow>
            length (take (MaxLen - 3) (Message_Output message) @ ''...'') = MaxLen)"
  using assms by (auto simp: Client_Send_def Let_def)

theorem Send_truncates_witness:
  "Type message_long \<in> {MsgTypeDirect, MsgTypeChannel, MsgTypePrivateChannel} \<and>
   (3::nat) \<le> 4000 \<and> 4000 < length (Message_Output message_long) \<and>
   map Message_Output (transmitted (Client_Send 4000 1700000000 message_long)) =
     [replicate 3997 (CHR ''x'') @ ''...''] \<and>
   length (replicate 3997 (CHR ''x'') @ ''...'') = 4000"
  using Send_truncates [of message_long 4000 1700000000]
  by (simp add: message_long_def message0_def)

text \<open>
  Claim C7. For a message whose type is none of \<open>MsgTypeDirect\<close>, \<open>MsgTypeChannel\<close> and
  \<open>MsgTypePrivateChannel\<close>, \<open>Send\<close> writes its debug line and the warning and does nothing
  else: nothing is handed to \<open>send\<close>, and there is no error to return.
\<close>

theorem Send_unknown_type:
  assumes "Type message \<notin> {MsgTypeDirect, MsgTypeChannel, MsgTypePrivateChannel}"
  shows "Client_Send MaxLen now message =
           [Log LogDebug (''sending message '' @ quoted (Message_ID message)),
            Log LogWarn ''received unknown message type - no message to send''] \<and>
         transmitted (Client_Send MaxLen now message) = []"
  using assms by (cases "Type message") (simp_all add: Client_Send_def Let_def)

theorem Send_unknown_type_witness:
  "Type message_untyped \<notin> {MsgTypeDirect, MsgTypeChannel, MsgTypePrivateChannel} \<and>
   Client_Send 4000 1700000000 message_untyped =
     [Log LogDebug (''sending message '' @ quoted ''m1''),
      Log LogWarn ''received unknown message type - no message to send''] \<and>
   transmitted (Client_Send 4000 1700000000 message_untyped) = []"
  using Send_unknown_type [of message_untyped 4000 1700000000]
  by (simp add: message_untyped_def message0_def)

subsection \<open>Reaction\<close>

text \<open>
  The removal is attempted first, on the message given by its channel and timestamp;
  the addition is attempted on the same message when there is nothing to remove or the
  removal succeeds.
\<close>

lemma Reaction_removal_attempted:
  "RemoveReaction rule \<noteq> [] \<Longrightarrow>
   hd (Client_Reaction api message rule) =
     RemoveReaction_call (RemoveReaction rule) (ChannelID message, Timestamp message)"
  by (simp add: Client_Reaction_def Let_def)

lemma Reaction_addition_attempted:
  "Reaction rule \<noteq> [] \<Longrightarrow>
   RemoveReaction rule = [] \<or>
   api_RemoveReaction api (RemoveReaction rule) (ChannelID message, Timestamp message) = None \<Longrightarrow>
   AddReaction_call (Reaction rule) (ChannelID message, Timestamp message)
     \<in> set (Client_Reaction api message rule)"
  by (auto simp: Client_Reaction_def add_part_def Let_def)

text \<open>
  Claim C6, at an input where it fails. The rule asks to remove \<open>eyes\<close> and to add
  \<open>white_check_mark\<close>, and the removal fails. The failure is logged and not passed on, but
  the call ends there: the reaction of the rule is not added, and the log line speaks of
  adding where the removal failed.
\<close>

theorem Reaction_removal_fails:
  "Client_Reaction api_removal_fails message0 rule_swap =
     [RemoveReaction_call ''eyes'' (''C1'', ''1700000000.000100''),
      Log LogError ''could not add reaction: no_reaction'']"
  by (simp add: Client_Reaction_def api_removal_fails_def message0_def rule_swap_def)

subsection \<open>Read\<close>

text \<open>
  Claim C10. \<open>Read\<close> overwrites \<open>bot.Rooms\<close> with the result of \<open>getRooms\<close> before it calls
  \<open>AuthTest\<close>. When the authentication fails, \<open>Read\<close> returns at once: the rooms are the
  new ones, the ID of the bot is the old one, and nothing has been written to the
  channel. When it succeeds, the ID is set to the user ID of the answer, and the reader is
  started on that state.
\<close>

theorem Read_authentication:
  "(api_AuthTest api = Inl e \<longrightarrow>
      (\<exists>w'. Client_Read getRooms readFromSocketMode readFromEventsAPI c api w = Some w' \<and>
            bot w' = (bot w)\<lparr>Rooms := getRooms api\<rparr> \<and>
            ID (bot w') = ID (bot w) \<and>
            inputMsgs w' = inputMsgs w \<and>
            trace w' = trace w @ [getRooms_call, AuthTest_call,
                                  Log LogError unauthorized_message])) \<and>
   (api_AuthTest api = Inr UserID \<longrightarrow>
      Client_Read getRooms readFromSocketMode readFromEventsAPI c api w =
        start_reader readFromSocketMode readFromEventsAPI c api
          (w\<lparr>trace := trace w @ [getRooms_call, AuthTest_call],
             bot := (bot w)\<lparr>Rooms := getRooms api, ID := UserID\<rparr>\<rparr>))"
  by (simp add: Client_Read_def emit_def Let_def)

theorem Read_authentication_witness:
  "api_AuthTest api_unauthorized = Inl (OtherError ''invalid_auth'') \<and>
   (\<exists>w'. Client_Read rooms1 socket_silent events_silent client0 api_unauthorized world0 = Some w' \<and>
         bot w' = bot0\<lparr>Rooms := [''general'' \<mapsto> ''C1'']\<rparr> \<and>
         ID (bot w') = [] \<and> inputMsgs w' = [] \<and>
         trace w' = [getRooms_call, AuthTest_call, Log LogError unauthorized_message]) \<and>
   api_AuthTest api_authorized = Inr ''U123'' \<and>
   Client_Read rooms1 socket_silent events_silent client0 api_authorized world0 =
     Some (world0\<lparr>trace := [getRooms_call, AuthTest_call],
                   bot := bot0\<lparr>Rooms := [''general'' \<mapsto> ''C1''], ID := ''U123''\<rparr>\<rparr>)"
  using Read_authentication [of api_unauthorized "OtherError ''invalid_auth''" rooms1
      socket_silent events_silent client0 world0 "''U123''"]
    Read_authentication [of api_authorized "OtherError ''invalid_auth''" rooms1
      socket_silent events_silent client0 world0 "''U123''"]
  by (simp add: api_unauthorized_def api_authorized_def world0_def rooms1_def bot0_def
      start_reader_def client0_def events_silent_def)

subsection \<open>InteractiveComponents\<close>

lemma listeners_append: "listeners (xs @ ys) = listeners xs @ listeners ys"
  by (induction xs rule: listeners.induct) simp_all

text \<open>
  Claim C8. Once the router is initialized, a call of \<open>InteractiveComponents\<close> registers
  no route and starts no server, whatever its arguments. In particular, after a first
  activation from the nil router with the feature enabled, a signing secret and a valid
  callback path, the router holds the health route and the callback route, one server
  has been started, and a second activation leaves both as they are.
\<close>

theorem InteractiveComponents_second_activation:
  "(interactionsRouter w \<noteq> None \<longrightarrow>
      interactionsRouter (Client_InteractiveComponents isValidPath c message rule w) =
        interactionsRouter w \<and>
      listeners (trace (Client_InteractiveComponents isValidPath c message rule w)) =
        listeners (trace w)) \<and>
   (interactionsRouter w = None \<and> InteractiveComponents (bot w) \<and> SigningSecret c \<noteq> [] \<and>
    SlackInteractionsCallbackPath (bot w) \<noteq> [] \<and>
    isValidPath (SlackInteractionsCallbackPath (bot w)) \<longrightarrow>
      (let w1 = Client_InteractiveComponents isValidPath c message rule w;
           w2 = Client_InteractiveComponents isValidPath c message' rule' w1
       in interactionsRouter w1 =
            Some [(''/interaction_health'', InteractiveComponentHealthHandler, ''GET''),
                  (SlackInteractionsCallbackPath (bot w),
                   InteractiveComponentRuleHandler (SigningSecret c) rule, ''POST'')] \<and>
          interactionsRouter w2 = interactionsRouter w1 \<and>
          listeners (trace w1) = listeners (trace w) @ ['':4000''] \<and>
          listeners (trace w2) = listeners (trace w1)))"
  by (auto simp: Client_InteractiveComponents_def emit_def Let_def listeners_append)

theorem InteractiveComponents_second_activation_witness:
  "interactionsRouter world0 = None \<and> InteractiveComponents (bot world0) \<and>
   SigningSecret client0 \<noteq> [] \<and> SlackInteractionsCallbackPath (bot world0) \<noteq> [] \<and>
   path_ok (SlackInteractionsCallbackPath (bot world0)) \<and>
   interactionsRouter (Client_InteractiveComponents path_ok client0 message0 rule_swap world0)
     \<noteq> None \<and>
   interactionsRouter
     (Client_InteractiveComponents path_ok client0 message0 rule_swap
        (Client_InteractiveComponents path_ok client0 message0 rule_swap world0)) =
     Some [(''/interaction_health'', InteractiveComponentHealthHandler, ''GET''),
           (''/slack_events/v1/mybot_dev-v1_interactions'',
            InteractiveComponentRuleHandler ''s3cret'' rule_swap, ''POST'')] \<and>
   listeners (trace
     (Client_InteractiveComponents path_ok client0 message0 rule_swap
        (Client_InteractiveComponents path_ok client0 message0 rule_swap world0))) = ['':4000'']"
  using InteractiveComponents_second_activation [of world0 path_ok client0 message0 rule_swap
      message0 rule_swap]
    InteractiveComponents_second_activation [of
      "Client_InteractiveComponents path_ok client0 message0 rule_swap world0"
      path_ok client0 message0 rule_swap message0 rule_swap]
  by (simp add: world0_def bot0_def client0_def path_ok_def Let_def)

end
